theory Spec2Isabelle
  imports Main "HOL-Library.Sublist"
begin

section \<open>The stream command backend (src/server/server.js)\<close>

text \<open>
  The server keeps four module-level variables: the handles of the FFmpeg encoder, of the
  Xvfb display and of the Puppeteer browser, and the last stream error. Every route and every
  event handler reads and writes them. The model passes them as a record; the calls that leave
  the server (spawning, killing, file writes, browser operations, HTTP responses) are appended
  to the field \<open>trace\<close>, in the order in which the code issues them.

  A child process object is always truthy in JavaScript; its \<open>pid\<close> is a number, or
  \<open>undefined\<close> when the spawn did not produce a process.

  Each route and each event handler is a function from the state before to the outcome after.
  The start route gives control back to the event loop at each \<open>await\<close>; these points lie
  between the statements of its \<open>try\<close> block, which the model keeps as a list, so a prefix
  of the list is a startup that is suspended there and the state after the prefix is what
  another route finds. \<open>cleanup\<close> is given whole, as the routes that await it see it, and
  in two parts around its \<open>await\<close>, as the \<open>data\<close> handler that does not await it
  leaves it. Console output is left out.
\<close>

datatype child = ChildProcess (pid: "nat option")

datatype browser = Browser nat

datatype body = Message string | Status bool "string option"

datatype effect =
    WriteFile string string
  | Spawn string "string list"
  | Sleep nat
  | Require string
  | Launch "string list"
  | NewPage
  | SetViewport nat nat
  | Goto string
  | Evaluate
  | Kill nat
  | BrowserClose nat
  | Exec string
  | Respond nat body

record server =
  streamProcess :: "child option"
  xvfbProcess :: "child option"
  browserProcess :: "browser option"
  lastStreamError :: "string option"
  trace :: "effect list"

text \<open>
  What the world outside answers: which call throws (and with which message), the process
  ids the spawns produce (none when the process could not be spawned, with the error that the
  child then emits), the browser that the launch returns, and the value of the constant
  \<open>HTML_FILE_PATH\<close>, which \<open>path.join\<close> computes from the directory of the script when
  the module loads.
\<close>

record env =
  throws :: "effect \<Rightarrow> string option"
  xvfb_pid :: "nat option"
  ffmpeg_pid :: "nat option"
  spawn_error :: string
  browser_id :: nat
  HTML_FILE_PATH :: string

text \<open>
  A statement either completes with the new state (\<open>Inr\<close>) or fails, leaving the state it
  had reached (\<open>Inl\<close>). A failure is an error thrown by the statement, which an enclosing
  \<open>catch\<close> receives, or an error thrown by the event loop outside every handler, which
  nothing catches and which ends the process.
\<close>

datatype failure = Thrown string | Uncaught string

type_synonym outcome = "(failure \<times> server) + server"

definition emit :: "effect \<Rightarrow> server \<Rightarrow> server" where
  "emit c s = s\<lparr>trace := trace s @ [c]\<rparr>"

definition ext :: "env \<Rightarrow> effect \<Rightarrow> server \<Rightarrow> outcome" where
  "ext e c s =
     (case throws e c of Some m \<Rightarrow> Inl (Thrown m, emit c s) | None \<Rightarrow> Inr (emit c s))"

text \<open>Statements in sequence: the first one that throws ends the sequence.\<close>

fun run_steps :: "(server \<Rightarrow> outcome) list \<Rightarrow> server \<Rightarrow> outcome" where
  "run_steps [] s = Inr s"
| "run_steps (f # fs) s = (case f s of Inl x \<Rightarrow> Inl x | Inr s' \<Rightarrow> run_steps fs s')"

definition respond :: "nat \<Rightarrow> body \<Rightarrow> server \<Rightarrow> outcome" where
  "respond code b s = Inr (emit (Respond code b) s)"

subsection \<open>Configuration constants\<close>

definition DISPLAY_NUM :: string where
  "DISPLAY_NUM = '':99''"

definition SCREEN_RES :: string where
  "SCREEN_RES = ''1920x1080''"

subsection \<open>JavaScript truthiness and strings\<close>

text \<open>A string value is truthy when it is neither null/undefined nor empty.\<close>

definition truthy :: "string option \<Rightarrow> bool" where
  "truthy v = (case v of None \<Rightarrow> False | Some x \<Rightarrow> x \<noteq> [])"

definition str :: "string option \<Rightarrow> string" where
  "str v = (case v of None \<Rightarrow> [] | Some x \<Rightarrow> x)"

definition startsWith :: "'a list \<Rightarrow> 'a list \<Rightarrow> bool" where
  "startsWith s p = (take (length p) s = p)"

fun includes_js :: "'a list \<Rightarrow> 'a list \<Rightarrow> bool" where
  "includes_js [] sub = (sub = [])"
| "includes_js (c # cs) sub = (startsWith (c # cs) sub \<or> includes_js cs sub)"

subsection \<open>killProcess and cleanup\<close>

text \<open>
  \<open>killProcess\<close> signals only a truthy pid, and swallows whatever \<open>process.kill\<close>
  throws.
\<close>

definition killProcess :: "env \<Rightarrow> nat option \<Rightarrow> server \<Rightarrow> outcome" where
  "killProcess e p s =
     (case p of
        None \<Rightarrow> Inr s
      | Some n \<Rightarrow>
          if n = 0 then Inr s
          else (case ext e (Kill n) s of Inl (m, s1) \<Rightarrow> Inr s1 | Inr s1 \<Rightarrow> Inr s1))"

definition cleanup_stream :: "env \<Rightarrow> server \<Rightarrow> outcome" where
  "cleanup_stream e s =
     (case streamProcess s of
        None \<Rightarrow> Inr s
      | Some c \<Rightarrow>
          (case killProcess e (pid c) s of
             Inl x \<Rightarrow> Inl x
           | Inr s1 \<Rightarrow> Inr (s1\<lparr>streamProcess := None\<rparr>)))"

definition cleanup_browser :: "env \<Rightarrow> server \<Rightarrow> outcome" where
  "cleanup_browser e s =
     (case browserProcess s of
        None \<Rightarrow> Inr s
      | Some (Browser b) \<Rightarrow>
          (case ext e (BrowserClose b) s of
             Inl (m, s1) \<Rightarrow> Inr (s1\<lparr>browserProcess := None\<rparr>)
           | Inr s1 \<Rightarrow> Inr (s1\<lparr>browserProcess := None\<rparr>)))"

definition cleanup_xvfb :: "env \<Rightarrow> server \<Rightarrow> outcome" where
  "cleanup_xvfb e s =
     (case xvfbProcess s of
        None \<Rightarrow> Inr s
      | Some c \<Rightarrow>
          (case killProcess e (pid c) s of
             Inl x \<Rightarrow> Inl x
           | Inr s1 \<Rightarrow> Inr (s1\<lparr>xvfbProcess := None\<rparr>)))"

definition sweep :: effect where
  "sweep = Exec (''pkill -f '' @ [CHR 0x22] @ ''Xvfb '' @ DISPLAY_NUM @ [CHR 0x22])"

definition cleanup_sweep :: "server \<Rightarrow> outcome" where
  "cleanup_sweep s = Inr (emit sweep s)"

definition cleanup :: "env \<Rightarrow> server \<Rightarrow> outcome" where
  "cleanup e = run_steps [cleanup_stream e, cleanup_browser e, cleanup_xvfb e, cleanup_sweep]"

text \<open>
  \<open>cleanup\<close> has one \<open>await\<close>, on the close of the browser. A caller that does not await
  it, as the two event handlers of the encoder do not, gets control back there: the encoder is
  dealt with, the close is under way, and the browser and display handles are as they were. The
  rest runs in a later turn of the event loop, once the close has settled, whether it resolved
  or was rejected. With no browser handle there is no \<open>await\<close> and the whole of it runs at
  once.
\<close>

datatype progress = Completed server | Suspended server

definition cleanup_begin :: "env \<Rightarrow> server \<Rightarrow> (failure \<times> server) + progress" where
  "cleanup_begin e s =
     (case cleanup_stream e s of
        Inl x \<Rightarrow> Inl x
      | Inr s1 \<Rightarrow>
          (case browserProcess s1 of
             None \<Rightarrow>
               (case run_steps [cleanup_xvfb e, cleanup_sweep] s1 of
                  Inl x \<Rightarrow> Inl x
                | Inr s2 \<Rightarrow> Inr (Completed s2))
           | Some (Browser b) \<Rightarrow> Inr (Suspended (emit (BrowserClose b) s1))))"

definition cleanup_resume :: "env \<Rightarrow> server \<Rightarrow> outcome" where
  "cleanup_resume e s = run_steps [cleanup_xvfb e, cleanup_sweep] (s\<lparr>browserProcess := None\<rparr>)"

subsection \<open>The status route\<close>

definition status_body :: "server \<Rightarrow> body" where
  "status_body s = Status (streamProcess s \<noteq> None) (lastStreamError s)"

definition api_status :: "server \<Rightarrow> outcome" where
  "api_status s = respond 200 (status_body s) s"

subsection \<open>The start route\<close>

record request =
  streamKey :: "string option"
  htmlContent :: "string option"

definition rtmpUrl :: "string \<Rightarrow> string" where
  "rtmpUrl key =
     (if startsWith key ''rtmp'' then key else ''rtmp://a.rtmp.youtube.com/live2/'' @ key)"

definition ffmpegArgs :: "string \<Rightarrow> string list" where
  "ffmpegArgs key =
     [''-f'', ''x11grab'',
      ''-draw_mouse'', ''0'',
      ''-s'', SCREEN_RES,
      ''-framerate'', ''30'',
      ''-i'', DISPLAY_NUM @ ''.0'',
      ''-f'', ''lavfi'',
      ''-i'', ''anullsrc=channel_layout=stereo:sample_rate=44100'',
      ''-c:v'', ''libx264'',
      ''-preset'', ''veryfast'',
      ''-maxrate'', ''3000k'',
      ''-bufsize'', ''6000k'',
      ''-pix_fmt'', ''yuv420p'',
      ''-g'', ''60'',
      ''-c:a'', ''aac'',
      ''-b:a'', ''128k'',
      ''-ar'', ''44100'',
      ''-f'', ''flv'',
      rtmpUrl key]"

definition launchArgs :: "string list" where
  "launchArgs =
     [''--no-sandbox'',
      ''--disable-setuid-sandbox'',
      ''--display='' @ DISPLAY_NUM,
      ''--start-fullscreen'',
      ''--window-size=1920,1080'',
      ''--autoplay-policy=no-user-gesture-required'',
      ''--hide-scrollbars'']"

text \<open>The statements of the \<open>try\<close> block, one external call each.\<close>

definition writeHtml :: "env \<Rightarrow> string \<Rightarrow> server \<Rightarrow> outcome" where
  "writeHtml e html = ext e (WriteFile (HTML_FILE_PATH e) html)"

definition spawnXvfb :: "env \<Rightarrow> server \<Rightarrow> outcome" where
  "spawnXvfb e s =
     (case ext e (Spawn ''Xvfb'' [DISPLAY_NUM, ''-screen'', ''0'', SCREEN_RES @ ''x24'', ''-ac'']) s of
        Inl x \<Rightarrow> Inl x
      | Inr s1 \<Rightarrow> Inr (s1\<lparr>xvfbProcess := Some (ChildProcess (xvfb_pid e))\<rparr>))"

text \<open>
  A child that could not be spawned has no pid, and Node emits \<open>error\<close> on it in the next
  tick, that is when the running handler gives control back. The code registers no listener for
  \<open>error\<close> on either child, so the emitter throws the error, outside the \<open>try\<close> block.
  For the display this happens at the first \<open>await\<close>, the warm-up wait; for the encoder at
  the end of the handler.
\<close>

definition next_tick :: "env \<Rightarrow> child option \<Rightarrow> server \<Rightarrow> outcome" where
  "next_tick e c s =
     (case c of
        Some (ChildProcess None) \<Rightarrow> Inl (Uncaught (spawn_error e), s)
      | _ \<Rightarrow> Inr s)"

definition warmUp :: "env \<Rightarrow> server \<Rightarrow> outcome" where
  "warmUp e s = (let s1 = emit (Sleep 2000) s in next_tick e (xvfbProcess s1) s1)"

definition requirePuppeteer :: "env \<Rightarrow> server \<Rightarrow> outcome" where
  "requirePuppeteer e = ext e (Require ''puppeteer'')"

definition launchBrowser :: "env \<Rightarrow> server \<Rightarrow> outcome" where
  "launchBrowser e s =
     (case ext e (Launch launchArgs) s of
        Inl x \<Rightarrow> Inl x
      | Inr s1 \<Rightarrow> Inr (s1\<lparr>browserProcess := Some (Browser (browser_id e))\<rparr>))"

definition newPage :: "env \<Rightarrow> server \<Rightarrow> outcome" where
  "newPage e = ext e NewPage"

definition setViewport :: "env \<Rightarrow> server \<Rightarrow> outcome" where
  "setViewport e = ext e (SetViewport 1920 1080)"

definition goto :: "env \<Rightarrow> server \<Rightarrow> outcome" where
  "goto e = ext e (Goto (''file://'' @ HTML_FILE_PATH e))"

definition evaluate :: "env \<Rightarrow> server \<Rightarrow> outcome" where
  "evaluate e = ext e Evaluate"

definition spawnFfmpeg :: "env \<Rightarrow> string \<Rightarrow> server \<Rightarrow> outcome" where
  "spawnFfmpeg e key s =
     (case ext e (Spawn ''ffmpeg'' (ffmpegArgs key)) s of
        Inl x \<Rightarrow> Inl x
      | Inr s1 \<Rightarrow> Inr (s1\<lparr>streamProcess := Some (ChildProcess (ffmpeg_pid e))\<rparr>))"

definition start_steps :: "env \<Rightarrow> string \<Rightarrow> string \<Rightarrow> (server \<Rightarrow> outcome) list" where
  "start_steps e key html =
     [writeHtml e html, spawnXvfb e, warmUp e, requirePuppeteer e, launchBrowser e, newPage e,
      setViewport e, goto e, evaluate e, spawnFfmpeg e key,
      respond 200 (Message ''Stream started successfully'')]"

definition start_catch :: "env \<Rightarrow> string \<Rightarrow> server \<Rightarrow> outcome" where
  "start_catch e m s =
     run_steps [cleanup e, respond 500 (Message m)] (s\<lparr>lastStreamError := Some m\<rparr>)"

definition start_try :: "env \<Rightarrow> string \<Rightarrow> string \<Rightarrow> server \<Rightarrow> outcome" where
  "start_try e key html s =
     (case run_steps (start_steps e key html) s of
        Inl (Thrown m, s1) \<Rightarrow> start_catch e m s1
      | Inl (Uncaught m, s1) \<Rightarrow> Inl (Uncaught m, s1)
      | Inr s2 \<Rightarrow> next_tick e (streamProcess s2) s2)"

definition api_start :: "env \<Rightarrow> request \<Rightarrow> server \<Rightarrow> outcome" where
  "api_start e req s =
     (if streamProcess s \<noteq> None then respond 400 (Message ''Stream is already running'') s
      else if \<not> truthy (streamKey req) \<or> \<not> truthy (htmlContent req)
        then respond 400 (Message ''Missing streamKey or htmlContent'') s
      else start_try e (str (streamKey req)) (str (htmlContent req)) (s\<lparr>lastStreamError := None\<rparr>))"

subsection \<open>The encoder's event handlers\<close>





text \<open>Decimal digits of a number, as a template literal prints it; \<open>null\<close> prints as its name.\<close>

fun string_of_nat :: "nat \<Rightarrow> string" where
  "string_of_nat n =
     (if n < 10 then [''0123456789'' ! n]
      else string_of_nat (n div 10) @ [''0123456789'' ! (n mod 10)])"

declare string_of_nat.simps [simp del]

definition string_of_code :: "nat option \<Rightarrow> string" where
  "string_of_code code = (case code of None \<Rightarrow> ''null'' | Some n \<Rightarrow> string_of_nat n)"

text \<open>
  The \<open>close\<close> handler of the encoder, with the cleanup it starts run to its end.
\<close>

definition on_close :: "env \<Rightarrow> nat option \<Rightarrow> server \<Rightarrow> outcome" where
  "on_close e code s =
     cleanup e
       (if code \<noteq> Some 0 \<and> \<not> truthy (lastStreamError s)
        then s\<lparr>lastStreamError := Some (''FFmpeg exited unexpectedly with code '' @ string_of_code code)\<rparr>
        else s)"

subsection \<open>The stop route\<close>

definition api_stop :: "env \<Rightarrow> server \<Rightarrow> outcome" where
  "api_stop e = run_steps [cleanup e, respond 200 (Message ''Stream stopped'')]"

section \<open>Vocabulary of the properties\<close>

text \<open>
  The signals a \<open>killProcess\<close> call sends for a pid, the calls a cleanup issues for the
  handles that are held (encoder, then browser, then display), and the state with every handle
  cleared.
\<close>

definition kill_effects :: "nat option \<Rightarrow> effect list" where
  "kill_effects p = (case p of None \<Rightarrow> [] | Some n \<Rightarrow> if n = 0 then [] else [Kill n])"

definition teardown :: "server \<Rightarrow> effect list" where
  "teardown s =
     (case streamProcess s of None \<Rightarrow> [] | Some c \<Rightarrow> kill_effects (pid c)) @
     (case browserProcess s of None \<Rightarrow> [] | Some (Browser b) \<Rightarrow> [BrowserClose b]) @
     (case xvfbProcess s of None \<Rightarrow> [] | Some c \<Rightarrow> kill_effects (pid c))"

definition idle :: "server \<Rightarrow> server" where
  "idle s = s\<lparr>streamProcess := None, browserProcess := None, xvfbProcess := None\<rparr>"

text \<open>The external calls of the \<open>try\<close> block of the start route, in program order.\<close>

definition start_calls :: "env \<Rightarrow> string \<Rightarrow> string \<Rightarrow> effect list" where
  "start_calls e key html =
     [WriteFile (HTML_FILE_PATH e) html,
      Spawn ''Xvfb'' [DISPLAY_NUM, ''-screen'', ''0'', SCREEN_RES @ ''x24'', ''-ac''],
      Sleep 2000,
      Require ''puppeteer'',
      Launch launchArgs,
      NewPage,
      SetViewport 1920 1080,
      Goto (''file://'' @ HTML_FILE_PATH e),
      Evaluate,
      Spawn ''ffmpeg'' (ffmpegArgs key),
      Respond 200 (Message ''Stream started successfully'')]"

definition issues :: "(server \<Rightarrow> outcome) \<Rightarrow> effect \<Rightarrow> bool" where
  "issues f c = (\<forall>s. case f s of Inl (m, s') \<Rightarrow> trace s' = trace s @ [c]
                              | Inr s' \<Rightarrow> trace s' = trace s @ [c])"








text \<open>
  The target resolution in the words of the specification: a target that begins with the scheme
  of the streaming protocol is used as it is, any other is taken as a key and appended to the
  default ingest endpoint.
\<close>

definition scheme :: string where
  "scheme = ''rtmp''"

definition default_ingest :: string where
  "default_ingest = ''rtmp://a.rtmp.youtube.com/live2/''"

definition resolve_target_spec :: "string \<Rightarrow> string" where
  "resolve_target_spec target = (if prefix scheme target then target else default_ingest @ target)"



text \<open>Concrete worlds and states used to exercise the theorems.\<close>

definition env_all_fail :: env where
  "env_all_fail = \<lparr>throws = (\<lambda>c. Some ''ESRCH''), xvfb_pid = Some 101, ffmpeg_pid = Some 103,
     spawn_error = ''spawn ENOENT'', browser_id = 7,
     HTML_FILE_PATH = ''/srv/public/live-overlay.html''\<rparr>"

definition env_ok :: env where
  "env_ok = \<lparr>throws = (\<lambda>c. None), xvfb_pid = Some 101, ffmpeg_pid = Some 103,
     spawn_error = ''spawn ENOENT'', browser_id = 7,
     HTML_FILE_PATH = ''/srv/public/live-overlay.html''\<rparr>"

definition env_no_xvfb :: env where
  "env_no_xvfb = env_ok\<lparr>xvfb_pid := None, spawn_error := ''spawn Xvfb ENOENT''\<rparr>"

definition env_no_ffmpeg :: env where
  "env_no_ffmpeg = env_ok\<lparr>ffmpeg_pid := None, spawn_error := ''spawn ffmpeg ENOENT''\<rparr>"

definition server_idle :: server where
  "server_idle = \<lparr>streamProcess = None, xvfbProcess = None, browserProcess = None,
     lastStreamError = None, trace = []\<rparr>"

definition server_active :: server where
  "server_active = \<lparr>streamProcess = Some (ChildProcess (Some 103)),
     xvfbProcess = Some (ChildProcess (Some 101)), browserProcess = Some (Browser 7),
     lastStreamError = None, trace = []\<rparr>"

definition req_ok :: request where
  "req_ok = \<lparr>streamKey = Some ''abc123'', htmlContent = Some ''<html></html>''\<rparr>"

definition req_no_key :: request where
  "req_no_key = \<lparr>streamKey = Some [], htmlContent = Some ''<html></html>''\<rparr>"

definition env_launch_fails :: env where
  "env_launch_fails = \<lparr>throws = (\<lambda>c. case c of Launch a \<Rightarrow> Some ''Failed to launch the browser process'' | _ \<Rightarrow> None),
     xvfb_pid = Some 101, ffmpeg_pid = Some 103, spawn_error = ''spawn ENOENT'', browser_id = 7,
     HTML_FILE_PATH = ''/srv/public/live-overlay.html''\<rparr>"

definition server_starting :: server where
  "server_starting = \<lparr>streamProcess = None, xvfbProcess = Some (ChildProcess (Some 101)),
     browserProcess = None, lastStreamError = None,
     trace = [WriteFile ''/srv/public/live-overlay.html'' ''<html></html>'',
              Spawn ''Xvfb'' ['':99'', ''-screen'', ''0'', ''1920x1080x24'', ''-ac''],
              Sleep 2000]\<rparr>"

definition server_rendering :: server where
  "server_rendering = \<lparr>streamProcess = None, xvfbProcess = Some (ChildProcess (Some 101)),
     browserProcess = Some (Browser 7), lastStreamError = None,
     trace = take 9 (start_calls env_ok ''abc123'' ''<html></html>'')\<rparr>"

section \<open>Cleanup\<close>

lemma killProcess_eq: "killProcess e p s = Inr (s\<lparr>trace := trace s @ kill_effects p\<rparr>)"
  by (simp add: killProcess_def kill_effects_def ext_def emit_def split: option.splits)

lemma cleanup_stream_eq:
  "cleanup_stream e s = Inr (s\<lparr>streamProcess := None,
      trace := trace s @ (case streamProcess s of None \<Rightarrow> [] | Some c \<Rightarrow> kill_effects (pid c))\<rparr>)"
  by (cases "streamProcess s") (simp_all add: cleanup_stream_def killProcess_eq)

lemma cleanup_browser_eq:
  "cleanup_browser e s = Inr (s\<lparr>browserProcess := None,
      trace := trace s @ (case browserProcess s of None \<Rightarrow> [] | Some (Browser b) \<Rightarrow> [BrowserClose b])\<rparr>)"
  by (simp add: cleanup_browser_def ext_def emit_def split: option.splits browser.splits)

lemma cleanup_xvfb_eq:
  "cleanup_xvfb e s = Inr (s\<lparr>xvfbProcess := None,
      trace := trace s @ (case xvfbProcess s of None \<Rightarrow> [] | Some c \<Rightarrow> kill_effects (pid c))\<rparr>)"
  by (cases "xvfbProcess s") (simp_all add: cleanup_xvfb_def killProcess_eq)

lemma cleanup_eq:
  "cleanup e s = Inr (idle s\<lparr>trace := trace s @ teardown s @ [sweep]\<rparr>)"
  by (simp add: cleanup_def cleanup_stream_eq cleanup_browser_eq cleanup_xvfb_eq
      cleanup_sweep_def emit_def teardown_def idle_def)

lemma run_steps_append:
  "run_steps (fs @ gs) s = (case run_steps fs s of Inl x \<Rightarrow> Inl x | Inr s' \<Rightarrow> run_steps gs s')"
  by (induction fs arbitrary: s) (auto split: sum.splits)

lemma cleanup_idle_repeat:
  "streamProcess s = None \<Longrightarrow> browserProcess s = None \<Longrightarrow> xvfbProcess s = None \<Longrightarrow>
   run_steps (map cleanup es) s = Inr (s\<lparr>trace := trace s @ replicate (length es) sweep\<rparr>)"
proof (induction es arbitrary: s)
  case Nil
  then show ?case by simp
next
  case (Cons e es)
  let ?s1 = "s\<lparr>trace := trace s @ [sweep]\<rparr>"
  have first: "cleanup e s = Inr ?s1"
    using Cons.prems by (simp add: cleanup_eq teardown_def idle_def)
  have rest: "run_steps (map cleanup es) ?s1 = Inr (?s1\<lparr>trace := trace ?s1 @ replicate (length es) sweep\<rparr>)"
    by (rule Cons.IH) (simp_all add: Cons.prems)
  show ?case
    by (simp add: first rest)
qed

section \<open>Sequences of statements and their traces\<close>

lemma issues_ext: "issues (ext e c) c"
  by (simp add: issues_def ext_def emit_def split: option.splits)

lemma issues_upd:
  "issues (\<lambda>s. case ext e c s of Inl x \<Rightarrow> Inl x | Inr s1 \<Rightarrow> Inr (s1\<lparr>xvfbProcess := v\<rparr>)) c"
  "issues (\<lambda>s. case ext e c s of Inl x \<Rightarrow> Inl x | Inr s1 \<Rightarrow> Inr (s1\<lparr>browserProcess := b\<rparr>)) c"
  "issues (\<lambda>s. case ext e c s of Inl x \<Rightarrow> Inl x | Inr s1 \<Rightarrow> Inr (s1\<lparr>streamProcess := v\<rparr>)) c"
  by (simp_all add: issues_def ext_def emit_def split: option.splits)

lemma issues_emit: "issues (\<lambda>s. Inr (emit c s)) c"
  by (simp add: issues_def emit_def)

lemma issues_warmUp: "issues (warmUp e) (Sleep 2000)"
  by (simp add: issues_def warmUp_def next_tick_def emit_def Let_def split: option.splits child.splits)

lemma issues_steps:
  "issues (writeHtml e html) (WriteFile (HTML_FILE_PATH e) html)"
  "issues (spawnXvfb e) (Spawn ''Xvfb'' [DISPLAY_NUM, ''-screen'', ''0'', SCREEN_RES @ ''x24'', ''-ac''])"
  "issues (warmUp e) (Sleep 2000)"
  "issues (requirePuppeteer e) (Require ''puppeteer'')"
  "issues (launchBrowser e) (Launch launchArgs)"
  "issues (newPage e) NewPage"
  "issues (setViewport e) (SetViewport 1920 1080)"
  "issues (goto e) (Goto (''file://'' @ HTML_FILE_PATH e))"
  "issues (evaluate e) Evaluate"
  "issues (spawnFfmpeg e key) (Spawn ''ffmpeg'' (ffmpegArgs key))"
  "issues (respond code b) (Respond code b)"
  unfolding writeHtml_def spawnXvfb_def requirePuppeteer_def launchBrowser_def
    newPage_def setViewport_def goto_def evaluate_def spawnFfmpeg_def respond_def
  by (rule issues_ext issues_upd issues_emit issues_warmUp)+

lemma issues_start_steps: "list_all2 issues (start_steps e key html) (start_calls e key html)"
  unfolding start_steps_def start_calls_def
  by (intro list_all2_Cons [THEN iffD2] conjI issues_steps) simp

lemma issues_Inl: "issues f c \<Longrightarrow> f s = Inl (m, s') \<Longrightarrow> trace s' = trace s @ [c]"
  unfolding issues_def by (erule allE [of _ s]) simp

lemma issues_Inr: "issues f c \<Longrightarrow> f s = Inr s' \<Longrightarrow> trace s' = trace s @ [c]"
  unfolding issues_def by (erule allE [of _ s]) simp

lemma run_steps_trace:
  "list_all2 issues fs cs \<Longrightarrow> run_steps fs s = Inr s' \<Longrightarrow> trace s' = trace s @ cs"
proof (induction fs cs arbitrary: s rule: list_all2_induct)
  case Nil
  then show ?case by simp
next
  case (Cons f fs c cs)
  from Cons.prems obtain s1 where f: "f s = Inr s1" and rest: "run_steps fs s1 = Inr s'"
    by (auto split: sum.splits)
  from Cons.hyps(1) f have "trace s1 = trace s @ [c]"
    by (rule issues_Inr)
  with Cons.IH [OF rest] show ?case by simp
qed

lemma run_steps_take_trace:
  assumes "list_all2 issues fs cs" "run_steps (take k fs) s = Inr s1"
  shows "trace s1 = trace s @ take k cs"
  using run_steps_trace [of "take k fs" "take k cs" s s1] assms
  by (simp add: list_all2_takeI)

lemma run_steps_fails_at:
  "run_steps (take k fs) s = Inr s1 \<Longrightarrow> k < length fs \<Longrightarrow> (fs ! k) s1 = Inl x \<Longrightarrow>
   run_steps fs s = Inl x"
proof -
  assume a: "run_steps (take k fs) s = Inr s1" "k < length fs" "(fs ! k) s1 = Inl x"
  have "fs = take k fs @ (fs ! k) # drop (Suc k) fs"
    using a(2) by (simp add: id_take_nth_drop)
  then have "run_steps fs s = run_steps (take k fs @ (fs ! k) # drop (Suc k) fs) s"
    by simp
  also have "\<dots> = Inl x"
    by (simp add: run_steps_append a del: append_take_drop_id)
  finally show ?thesis .
qed

lemma step_fails_trace:
  assumes "list_all2 issues fs cs" "k < length fs" "(fs ! k) s1 = Inl (m, s2)"
  shows "trace s2 = trace s1 @ [cs ! k]"
proof -
  have "issues (fs ! k) (cs ! k)"
    using assms(1,2) by (simp add: list_all2_nthD)
  then show ?thesis
    using assms(3) by (rule issues_Inl)
qed

lemma start_catch_eq:
  "start_catch e m s =
     Inr (idle s\<lparr>lastStreamError := Some m,
                 trace := trace s @ teardown s @ [sweep, Respond 500 (Message m)]\<rparr>)"
  by (simp add: start_catch_def cleanup_eq respond_def emit_def idle_def teardown_def)

section \<open>The start route\<close>

lemma start_try_fails:
  assumes k: "k < length (start_steps e key html)"
    and before: "run_steps (take k (start_steps e key html)) s = Inr s1"
    and fails: "(start_steps e key html ! k) s1 = Inl (Thrown m, s2)"
  shows "start_try e key html s =
           Inr (idle s2\<lparr>lastStreamError := Some m,
                  trace := trace s @ take (Suc k) (start_calls e key html) @ teardown s2
                             @ [sweep, Respond 500 (Message m)]\<rparr>)"
proof -
  have len: "k < length (start_calls e key html)"
    using k issues_start_steps [of e key html] by (simp add: list_all2_lengthD)
  have run: "run_steps (start_steps e key html) s = Inl (Thrown m, s2)"
    using before k fails by (rule run_steps_fails_at)
  have t1: "trace s1 = trace s @ take k (start_calls e key html)"
    using issues_start_steps before by (rule run_steps_take_trace)
  have t2: "trace s2 = trace s1 @ [start_calls e key html ! k]"
    using issues_start_steps k fails by (rule step_fails_trace)
  have "trace s2 = trace s @ take (Suc k) (start_calls e key html)"
    using t1 t2 len by (simp add: take_Suc_conv_app_nth)
  then show ?thesis
    by (simp add: start_try_def run start_catch_eq)
qed

lemma take4: "take 4 (start_steps e key html) = [writeHtml e html, spawnXvfb e, warmUp e, requirePuppeteer e]"
  by (simp add: start_steps_def)

lemma start_steps_ok:
  assumes "\<forall>c. throws e c = None" and "xvfb_pid e = Some p"
  shows "run_steps (start_steps e key html) s =
     Inr (s\<lparr>streamProcess := Some (ChildProcess (ffmpeg_pid e)),
            xvfbProcess := Some (ChildProcess (Some p)),
            browserProcess := Some (Browser (browser_id e)),
            trace := trace s @ start_calls e key html\<rparr>)"
  using assms
  by (simp add: start_steps_def start_calls_def writeHtml_def spawnXvfb_def warmUp_def
      next_tick_def requirePuppeteer_def launchBrowser_def newPage_def setViewport_def goto_def
      evaluate_def spawnFfmpeg_def respond_def ext_def emit_def)

lemma start_try_ok:
  assumes "\<forall>c. throws e c = None" and "xvfb_pid e = Some p" and "ffmpeg_pid e = Some q"
  shows "start_try e key html s =
     Inr (s\<lparr>streamProcess := Some (ChildProcess (Some q)),
            xvfbProcess := Some (ChildProcess (Some p)),
            browserProcess := Some (Browser (browser_id e)),
            trace := trace s @ start_calls e key html\<rparr>)"
  by (simp add: start_try_def start_steps_ok [OF assms(1,2)] next_tick_def assms(3))

text \<open>
  The path through the \<open>catch\<close> block. Take a start request that passes both guards, and let
  statement \<open>k\<close> of the \<open>try\<close> block throw the message \<open>m\<close> after the statements before
  it have completed. Then the route issues the first \<open>k + 1\<close> calls of the block and none of
  the later ones, then the teardown of whatever had been started and the sweep, and only then
  answers with status 500 and \<open>m\<close>; \<open>m\<close> is the recorded error and no handle remains.
\<close>

lemma start_thrown_failure_cleans_and_reports:
  assumes "streamProcess s = None" and "truthy (streamKey req)" and "truthy (htmlContent req)"
    and "key = str (streamKey req)" and "html = str (htmlContent req)"
    and "k < length (start_steps e key html)"
    and "run_steps (take k (start_steps e key html)) (s\<lparr>lastStreamError := None\<rparr>) = Inr s1"
    and "(start_steps e key html ! k) s1 = Inl (Thrown m, s2)"
  shows "\<exists>s'. api_start e req s = Inr s'
     \<and> lastStreamError s' = Some m
     \<and> streamProcess s' = None \<and> browserProcess s' = None \<and> xvfbProcess s' = None
     \<and> trace s' = trace s @ take (Suc k) (start_calls e key html) @ teardown s2
                     @ [sweep, Respond 500 (Message m)]"
proof -
  have "api_start e req s = start_try e key html (s\<lparr>lastStreamError := None\<rparr>)"
    using assms(1-5) by (simp add: api_start_def)
  also have "\<dots> = Inr (idle s2\<lparr>lastStreamError := Some m,
                  trace := trace (s\<lparr>lastStreamError := None\<rparr>) @ take (Suc k) (start_calls e key html)
                             @ teardown s2 @ [sweep, Respond 500 (Message m)]\<rparr>)"
    using assms(6-8) by (rule start_try_fails)
  finally show ?thesis
    by (simp add: idle_def)
qed

lemma start_thrown_failure_example:
  "api_start env_launch_fails req_ok server_idle =
     Inr (server_idle\<lparr>lastStreamError := Some ''Failed to launch the browser process'',
        trace := [WriteFile ''/srv/public/live-overlay.html'' ''<html></html>'',
                  Spawn ''Xvfb'' ['':99'', ''-screen'', ''0'', ''1920x1080x24'', ''-ac''],
                  Sleep 2000, Require ''puppeteer'', Launch launchArgs,
                  Kill 101, sweep,
                  Respond 500 (Message ''Failed to launch the browser process'')]\<rparr>)"
proof -
  let ?s1 = "server_idle\<lparr>xvfbProcess := Some (ChildProcess (Some 101)),
     trace := [WriteFile ''/srv/public/live-overlay.html'' ''<html></html>'',
                  Spawn ''Xvfb'' ['':99'', ''-screen'', ''0'', ''1920x1080x24'', ''-ac''],
                  Sleep 2000, Require ''puppeteer'']\<rparr>"
  have g: "streamProcess server_idle = None" "truthy (streamKey req_ok)" "truthy (htmlContent req_ok)"
    "''abc123'' = str (streamKey req_ok)" "''<html></html>'' = str (htmlContent req_ok)"
    by (simp_all add: server_idle_def req_ok_def truthy_def str_def)
  have k: "4 < length (start_steps env_launch_fails ''abc123'' ''<html></html>'')"
    by (simp add: start_steps_def)
  have before: "run_steps (take 4 (start_steps env_launch_fails ''abc123'' ''<html></html>''))
           (server_idle\<lparr>lastStreamError := None\<rparr>) = Inr ?s1"
    by (simp add: take4 writeHtml_def spawnXvfb_def warmUp_def next_tick_def requirePuppeteer_def ext_def emit_def
        env_launch_fails_def server_idle_def DISPLAY_NUM_def SCREEN_RES_def)
  have fails: "(start_steps env_launch_fails ''abc123'' ''<html></html>'' ! 4) ?s1 =
      Inl (Thrown ''Failed to launch the browser process'', emit (Launch launchArgs) ?s1)"
    by (simp add: start_steps_def launchBrowser_def ext_def env_launch_fails_def)
  show ?thesis
    using start_thrown_failure_cleans_and_reports [OF g k before fails]
    by (auto simp add: server_idle_def emit_def teardown_def kill_effects_def start_calls_def
        DISPLAY_NUM_def SCREEN_RES_def env_launch_fails_def)
qed


lemma startup_mid:
  assumes "streamProcess s0 = None" "5 \<le> n" "n \<le> 9"
    and "run_steps (take n (start_steps e key html)) s0 = Inr s1"
  shows "xvfbProcess s1 \<noteq> None \<and> browserProcess s1 \<noteq> None \<and> streamProcess s1 = None"
proof -
  from assms(2,3) have "n = 5 \<or> n = 6 \<or> n = 7 \<or> n = 8 \<or> n = 9"
    by arith
  with assms(1,4) show ?thesis
    by (auto simp add: start_steps_def writeHtml_def spawnXvfb_def warmUp_def next_tick_def Let_def
      requirePuppeteer_def launchBrowser_def newPage_def setViewport_def goto_def evaluate_def
      ext_def emit_def split: option.splits)
qed

lemma run9: "run_steps (take 9 (start_steps env_ok ''abc123'' ''<html></html>'')) server_idle = Inr server_rendering"
  by (simp add: start_steps_def start_calls_def writeHtml_def spawnXvfb_def warmUp_def next_tick_def
      requirePuppeteer_def launchBrowser_def newPage_def setViewport_def goto_def evaluate_def
      ext_def emit_def env_ok_def server_idle_def server_rendering_def)

section \<open>The encoder's arguments\<close>

lemma startsWith_prefix: "startsWith s p \<longleftrightarrow> prefix p s"
proof
  assume "startsWith s p"
  then have "s = p @ drop (length p) s"
    unfolding startsWith_def by (metis append_take_drop_id)
  then show "prefix p s"
    by (metis prefixI)
next
  assume "prefix p s"
  then show "startsWith s p"
    by (auto simp add: startsWith_def prefix_def)
qed

lemma includes_js_sublist: "includes_js s sub \<longleftrightarrow> sublist sub s"
  by (induction s) (simp_all add: startsWith_prefix sublist_Cons_right)




section \<open>The event handlers and the stop route\<close>



lemma on_close_eq:
  "on_close e code s =
     Inr (idle s\<lparr>lastStreamError :=
                   (if code \<noteq> Some 0 \<and> \<not> truthy (lastStreamError s)
                    then Some (''FFmpeg exited unexpectedly with code '' @ string_of_code code)
                    else lastStreamError s),
                 trace := trace s @ teardown s @ [sweep]\<rparr>)"
  by (simp add: on_close_def cleanup_eq idle_def teardown_def)

lemma api_stop_eq:
  "api_stop e s = Inr (idle s\<lparr>trace := trace s @ teardown s @ [sweep, Respond 200 (Message ''Stream stopped'')]\<rparr>)"
  by (simp add: api_stop_def cleanup_eq respond_def emit_def idle_def)




lemma cleanup_begin_eq:
  "cleanup_begin e s =
     Inr (case browserProcess s of
            None \<Rightarrow> Completed (s\<lparr>streamProcess := None, xvfbProcess := None,
                trace := trace s
                  @ (case streamProcess s of None \<Rightarrow> [] | Some c \<Rightarrow> kill_effects (pid c))
                  @ (case xvfbProcess s of None \<Rightarrow> [] | Some c \<Rightarrow> kill_effects (pid c))
                  @ [sweep]\<rparr>)
          | Some (Browser b) \<Rightarrow> Suspended (s\<lparr>streamProcess := None,
                trace := trace s
                  @ (case streamProcess s of None \<Rightarrow> [] | Some c \<Rightarrow> kill_effects (pid c))
                  @ [BrowserClose b]\<rparr>))"
  by (simp add: cleanup_begin_def cleanup_stream_eq cleanup_xvfb_eq cleanup_sweep_def emit_def
      split: option.splits browser.splits)

lemma cleanup_resume_eq:
  "cleanup_resume e s =
     Inr (s\<lparr>browserProcess := None, xvfbProcess := None,
            trace := trace s
              @ (case xvfbProcess s of None \<Rightarrow> [] | Some c \<Rightarrow> kill_effects (pid c))
              @ [sweep]\<rparr>)"
  by (simp add: cleanup_resume_def cleanup_xvfb_eq cleanup_sweep_def emit_def)

lemma cleanup_split:
  "cleanup e s =
     (case cleanup_begin e s of
        Inl x \<Rightarrow> Inl x
      | Inr (Completed s1) \<Rightarrow> Inr s1
      | Inr (Suspended s1) \<Rightarrow> cleanup_resume e s1)"
  by (simp add: cleanup_eq cleanup_begin_eq cleanup_resume_eq idle_def teardown_def
      split: option.splits browser.splits)


















section \<open>The claims\<close>

text \<open>
  C1, as the code has it. The start route tests the encoder handle only: a request that arrives
  while the encoder handle is held is answered with status 400 and the message that the stream
  is already running, and nothing else happens: no call leaves the server and every variable
  keeps its value.
\<close>

theorem start_rejected_while_encoder_held:
  "streamProcess s \<noteq> None \<Longrightarrow>
   api_start e req s = Inr (emit (Respond 400 (Message ''Stream is already running'')) s)"
  by (simp add: api_start_def respond_def)

theorem start_rejected_while_encoder_held_witness:
  "api_start env_ok req_ok server_active =
     Inr (server_active\<lparr>trace := [Respond 400 (Message ''Stream is already running'')]\<rparr>)"
  using start_rejected_while_encoder_held [of server_active env_ok req_ok]
  by (simp add: server_active_def emit_def)

text \<open>
  C1 as stated also covers a session that is still starting. The code has no such guard: after
  the first three statements of a start request (file written, display spawned, the handler
  suspended in the warm-up wait) the encoder handle is still null, and a second start request
  is accepted, spawns a second display, a browser and an encoder and answers with success.
\<close>

theorem start_not_rejected_while_starting:
  "run_steps (take 3 (start_steps env_ok ''abc123'' ''<html></html>'')) server_idle = Inr server_starting
   \<and> api_start env_ok req_ok server_starting =
       Inr (server_starting\<lparr>streamProcess := Some (ChildProcess (Some 103)),
              xvfbProcess := Some (ChildProcess (Some 101)),
              browserProcess := Some (Browser 7),
              trace := trace server_starting @ start_calls env_ok ''abc123'' ''<html></html>''\<rparr>)
   \<and> Respond 400 (Message ''Stream is already running'')
         \<notin> set (start_calls env_ok ''abc123'' ''<html></html>'')
   \<and> Spawn ''Xvfb'' ['':99'', ''-screen'', ''0'', ''1920x1080x24'', ''-ac'']
         \<in> set (start_calls env_ok ''abc123'' ''<html></html>'')"
proof -
  have a: "run_steps (take 3 (start_steps env_ok ''abc123'' ''<html></html>'')) server_idle = Inr server_starting"
    by (simp add: start_steps_def writeHtml_def spawnXvfb_def warmUp_def next_tick_def ext_def emit_def
        env_ok_def server_idle_def server_starting_def DISPLAY_NUM_def SCREEN_RES_def)
  have ok: "\<forall>c. throws env_ok c = None" "xvfb_pid env_ok = Some 101" "ffmpeg_pid env_ok = Some 103"
    by (simp_all add: env_ok_def)
  have b: "api_start env_ok req_ok server_starting =
       Inr (server_starting\<lparr>streamProcess := Some (ChildProcess (Some 103)),
              xvfbProcess := Some (ChildProcess (Some 101)),
              browserProcess := Some (Browser 7),
              trace := trace server_starting @ start_calls env_ok ''abc123'' ''<html></html>''\<rparr>)"
    by (simp add: api_start_def start_try_ok [OF ok] req_ok_def truthy_def str_def)
       (simp add: server_starting_def env_ok_def)
  have c: "Respond 400 (Message ''Stream is already running'')
         \<notin> set (start_calls env_ok ''abc123'' ''<html></html>'')"
    by (simp add: start_calls_def)
  have d: "Spawn ''Xvfb'' ['':99'', ''-screen'', ''0'', ''1920x1080x24'', ''-ac'']
         \<in> set (start_calls env_ok ''abc123'' ''<html></html>'')"
    by (simp add: start_calls_def DISPLAY_NUM_def SCREEN_RES_def)
  from a b c d show ?thesis by blast
qed




text \<open>
  C3. The target URL of the encoder, the last element of its argument vector, is the stream
  target itself when that begins with \<open>rtmp\<close>, and the default ingest endpoint followed by
  the stream target otherwise; the two examples of the specification resolve as it says.
\<close>

theorem target_url_resolution:
  "rtmpUrl target = resolve_target_spec target
   \<and> last (ffmpegArgs target) = resolve_target_spec target
   \<and> rtmpUrl ''rtmp://example.com/live2/KEY'' = ''rtmp://example.com/live2/KEY''
   \<and> rtmpUrl ''KEY'' = default_ingest @ ''KEY''"
proof -
  have a: "rtmpUrl target = resolve_target_spec target"
    by (simp add: rtmpUrl_def resolve_target_spec_def startsWith_prefix scheme_def default_ingest_def)
  have b: "last (ffmpegArgs target) = rtmpUrl target"
    by (simp add: ffmpegArgs_def)
  have c: "rtmpUrl ''rtmp://example.com/live2/KEY'' = ''rtmp://example.com/live2/KEY''"
    by (simp add: rtmpUrl_def startsWith_def)
  have d: "rtmpUrl ''KEY'' = default_ingest @ ''KEY''"
    by (simp add: rtmpUrl_def startsWith_def default_ingest_def)
  from a b c d show ?thesis by simp
qed

theorem target_url_resolution_witness:
  "rtmpUrl ''rtmps://host/app/KEY'' = ''rtmps://host/app/KEY''
   \<and> last (ffmpegArgs ''abc123'') = ''rtmp://a.rtmp.youtube.com/live2/abc123''"
  using target_url_resolution [of "''rtmps://host/app/KEY''"] target_url_resolution [of "''abc123''"]
  by (simp add: resolve_target_spec_def scheme_def default_ingest_def)

text \<open>
  C4. The claim holds of every failure that is thrown inside the \<open>try\<close> block (lemma
  \<open>start_thrown_failure_cleans_and_reports\<close>), and this is what the block with its
  \<open>catch\<close> is written for. It does not hold when the display or the encoder cannot be
  spawned: \<open>spawn\<close> then returns a child without pid and reports the failure by the
  \<open>error\<close> event, for which the code registers no listener. Take a start request that passes
  both guards, in a world where no call throws. When the display gets no pid, the process ends in
  the warm-up wait, after the first three calls of the block, with the display handle set, no
  error recorded, no cleanup and no answer. When the display gets one and the encoder none, the
  route issues all its calls, the answer of success last, and the process ends then with all
  three handles set.
\<close>

theorem start_spawn_failure_uncaught:
  assumes "streamProcess s = None" and "truthy (streamKey req)" and "truthy (htmlContent req)"
    and "key = str (streamKey req)" and "html = str (htmlContent req)"
    and "\<forall>c. throws e c = None"
  shows "(xvfb_pid e = None \<longrightarrow>
           api_start e req s =
             Inl (Uncaught (spawn_error e),
                  s\<lparr>xvfbProcess := Some (ChildProcess None), lastStreamError := None,
                    trace := trace s @ take 3 (start_calls e key html)\<rparr>))
       \<and> (xvfb_pid e = Some p \<and> ffmpeg_pid e = None \<longrightarrow>
           api_start e req s =
             Inl (Uncaught (spawn_error e),
                  s\<lparr>streamProcess := Some (ChildProcess None),
                    xvfbProcess := Some (ChildProcess (Some p)),
                    browserProcess := Some (Browser (browser_id e)), lastStreamError := None,
                    trace := trace s @ start_calls e key html\<rparr>))"
proof -
  have g: "api_start e req s = start_try e key html (s\<lparr>lastStreamError := None\<rparr>)"
    using assms(1-5) by (simp add: api_start_def)
  have a: "start_try e key html (s\<lparr>lastStreamError := None\<rparr>) =
             Inl (Uncaught (spawn_error e),
                  s\<lparr>xvfbProcess := Some (ChildProcess None), lastStreamError := None,
                    trace := trace s @ take 3 (start_calls e key html)\<rparr>)"
    if "xvfb_pid e = None"
    using that assms(6)
    by (simp add: start_try_def start_steps_def start_calls_def writeHtml_def spawnXvfb_def
        warmUp_def next_tick_def ext_def emit_def)
  have b: "start_try e key html (s\<lparr>lastStreamError := None\<rparr>) =
             Inl (Uncaught (spawn_error e),
                  s\<lparr>streamProcess := Some (ChildProcess None),
                    xvfbProcess := Some (ChildProcess (Some p)),
                    browserProcess := Some (Browser (browser_id e)), lastStreamError := None,
                    trace := trace s @ start_calls e key html\<rparr>)"
    if "xvfb_pid e = Some p" "ffmpeg_pid e = None"
    using that by (simp add: start_try_def start_steps_ok [OF assms(6) that(1)] next_tick_def)
  from a b show ?thesis
    by (simp add: g)
qed

theorem start_spawn_failure_uncaught_witness:
  "api_start env_no_xvfb req_ok server_idle =
     Inl (Uncaught ''spawn Xvfb ENOENT'',
          server_idle\<lparr>xvfbProcess := Some (ChildProcess None),
            trace := [WriteFile ''/srv/public/live-overlay.html'' ''<html></html>'',
                      Spawn ''Xvfb'' ['':99'', ''-screen'', ''0'', ''1920x1080x24'', ''-ac''],
                      Sleep 2000]\<rparr>)
   \<and> api_start env_no_ffmpeg req_ok server_idle =
     Inl (Uncaught ''spawn ffmpeg ENOENT'',
          server_idle\<lparr>streamProcess := Some (ChildProcess None),
            xvfbProcess := Some (ChildProcess (Some 101)),
            browserProcess := Some (Browser 7),
            trace := start_calls env_no_ffmpeg ''abc123'' ''<html></html>''\<rparr>)
   \<and> last (start_calls env_no_ffmpeg ''abc123'' ''<html></html>'') =
       Respond 200 (Message ''Stream started successfully'')"
proof -
  have g: "streamProcess server_idle = None" "truthy (streamKey req_ok)" "truthy (htmlContent req_ok)"
    "''abc123'' = str (streamKey req_ok)" "''<html></html>'' = str (htmlContent req_ok)"
    by (simp_all add: server_idle_def req_ok_def truthy_def str_def)
  have x: "\<forall>c. throws env_no_xvfb c = None" "xvfb_pid env_no_xvfb = None"
    by (simp_all add: env_no_xvfb_def env_ok_def)
  have f: "\<forall>c. throws env_no_ffmpeg c = None"
    "xvfb_pid env_no_ffmpeg = Some 101 \<and> ffmpeg_pid env_no_ffmpeg = None"
    by (simp_all add: env_no_ffmpeg_def env_ok_def)
  have a: "api_start env_no_xvfb req_ok server_idle =
     Inl (Uncaught ''spawn Xvfb ENOENT'',
          server_idle\<lparr>xvfbProcess := Some (ChildProcess None),
            trace := [WriteFile ''/srv/public/live-overlay.html'' ''<html></html>'',
                      Spawn ''Xvfb'' ['':99'', ''-screen'', ''0'', ''1920x1080x24'', ''-ac''],
                      Sleep 2000]\<rparr>)"
    using start_spawn_failure_uncaught [OF g x(1), of 0] x(2)
    by (simp add: start_calls_def env_no_xvfb_def env_ok_def server_idle_def DISPLAY_NUM_def
        SCREEN_RES_def)
  have b: "api_start env_no_ffmpeg req_ok server_idle =
     Inl (Uncaught ''spawn ffmpeg ENOENT'',
          server_idle\<lparr>streamProcess := Some (ChildProcess None),
            xvfbProcess := Some (ChildProcess (Some 101)),
            browserProcess := Some (Browser 7),
            trace := start_calls env_no_ffmpeg ''abc123'' ''<html></html>''\<rparr>)"
    using start_spawn_failure_uncaught [OF g f(1), of 101] f(2)
    by (simp add: env_no_ffmpeg_def env_ok_def server_idle_def)
  have c: "last (start_calls env_no_ffmpeg ''abc123'' ''<html></html>'') =
       Respond 200 (Message ''Stream started successfully'')"
    by (simp add: start_calls_def)
  from a b c show ?thesis by blast
qed

text \<open>
  C5, as the code has it. A start request whose stream key or content is missing or empty is
  answered with status 400, no call leaves the server and every variable, the recorded error
  included, keeps its value. The message is the one for missing fields when no encoder handle is
  held; when one is held, the guard on the running stream comes first and gives its own message.
\<close>

theorem start_missing_fields_rejected:
  "\<not> truthy (streamKey req) \<or> \<not> truthy (htmlContent req) \<Longrightarrow>
   api_start e req s =
     Inr (emit (Respond 400 (Message (if streamProcess s \<noteq> None then ''Stream is already running''
                                       else ''Missing streamKey or htmlContent''))) s)"
  by (auto simp add: api_start_def respond_def)

theorem start_missing_fields_rejected_witness:
  "api_start env_ok req_no_key (server_idle\<lparr>lastStreamError := Some ''old''\<rparr>) =
     Inr (server_idle\<lparr>lastStreamError := Some ''old'',
            trace := [Respond 400 (Message ''Missing streamKey or htmlContent'')]\<rparr>)"
  using start_missing_fields_rejected [of req_no_key env_ok "server_idle\<lparr>lastStreamError := Some ''old''\<rparr>"]
  by (simp add: req_no_key_def truthy_def server_idle_def emit_def)

text \<open>
  C5 as stated promises the rejection for missing fields on every such request. While the
  encoder handle is held the request is rejected as already running instead.
\<close>

theorem start_missing_fields_while_active:
  "api_start env_ok req_no_key server_active =
     Inr (emit (Respond 400 (Message ''Stream is already running'')) server_active)
   \<and> api_start env_ok req_no_key server_active \<noteq>
     Inr (emit (Respond 400 (Message ''Missing streamKey or htmlContent'')) server_active)"
  by (simp add: api_start_def respond_def server_active_def emit_def)




text \<open>
  C7. \<open>cleanup\<close> never raises, whatever the kill signals and the browser's close do. It
  clears the three handles and leaves the recorded error alone. It signals the encoder, closes the
  browser and signals the display in this order, each only when its handle is held, and always
  ends with the sweep for stray display processes; with no handle held the sweep is all it does,
  with one handle held it touches that resource only. Any number of further calls add one sweep
  each and nothing else.
\<close>

theorem cleanup_never_raises_idempotent_ordered:
  "\<exists>s'. cleanup e s = Inr s'
      \<and> streamProcess s' = None \<and> browserProcess s' = None \<and> xvfbProcess s' = None
      \<and> lastStreamError s' = lastStreamError s
      \<and> trace s' = trace s
           @ (case streamProcess s of None \<Rightarrow> [] | Some c \<Rightarrow> kill_effects (pid c))
           @ (case browserProcess s of None \<Rightarrow> [] | Some (Browser b) \<Rightarrow> [BrowserClose b])
           @ (case xvfbProcess s of None \<Rightarrow> [] | Some c \<Rightarrow> kill_effects (pid c))
           @ [sweep]
      \<and> run_steps (map cleanup es) s' = Inr (s'\<lparr>trace := trace s' @ replicate (length es) sweep\<rparr>)"
proof -
  let ?s' = "idle s\<lparr>trace := trace s @ teardown s @ [sweep]\<rparr>"
  have held: "streamProcess ?s' = None" "browserProcess ?s' = None" "xvfbProcess ?s' = None"
    by (simp_all add: idle_def)
  have "cleanup e s = Inr ?s'"
    by (rule cleanup_eq)
  moreover have "lastStreamError ?s' = lastStreamError s"
    by (simp add: idle_def)
  moreover have "trace ?s' = trace s
           @ (case streamProcess s of None \<Rightarrow> [] | Some c \<Rightarrow> kill_effects (pid c))
           @ (case browserProcess s of None \<Rightarrow> [] | Some (Browser b) \<Rightarrow> [BrowserClose b])
           @ (case xvfbProcess s of None \<Rightarrow> [] | Some c \<Rightarrow> kill_effects (pid c))
           @ [sweep]"
    by (simp add: teardown_def)
  moreover have "run_steps (map cleanup es) ?s' =
      Inr (?s'\<lparr>trace := trace ?s' @ replicate (length es) sweep\<rparr>)"
    using held by (rule cleanup_idle_repeat)
  ultimately show ?thesis
    using held by blast
qed

theorem cleanup_never_raises_idempotent_ordered_witness:
  "cleanup env_all_fail server_active =
     Inr (server_idle\<lparr>trace := [Kill 103, BrowserClose 7, Kill 101, sweep]\<rparr>)
   \<and> run_steps (map cleanup [env_all_fail, env_ok])
        (server_idle\<lparr>trace := [Kill 103, BrowserClose 7, Kill 101, sweep]\<rparr>) =
     Inr (server_idle\<lparr>trace := [Kill 103, BrowserClose 7, Kill 101, sweep, sweep, sweep]\<rparr>)
   \<and> cleanup env_all_fail (server_idle\<lparr>browserProcess := Some (Browser 7)\<rparr>) =
     Inr (server_idle\<lparr>trace := [BrowserClose 7, sweep]\<rparr>)"
proof -
  have a: "cleanup env_all_fail server_active =
     Inr (server_idle\<lparr>trace := [Kill 103, BrowserClose 7, Kill 101, sweep]\<rparr>)"
    using cleanup_never_raises_idempotent_ordered [of env_all_fail server_active "[]"]
    by (auto simp add: server_active_def server_idle_def kill_effects_def)
  have b: "run_steps (map cleanup [env_all_fail, env_ok])
        (server_idle\<lparr>trace := [Kill 103, BrowserClose 7, Kill 101, sweep]\<rparr>) =
     Inr (server_idle\<lparr>trace := [Kill 103, BrowserClose 7, Kill 101, sweep, sweep, sweep]\<rparr>)"
    using cleanup_never_raises_idempotent_ordered [of env_all_fail server_active "[env_all_fail, env_ok]"] a
    by auto
  have c: "cleanup env_all_fail (server_idle\<lparr>browserProcess := Some (Browser 7)\<rparr>) =
     Inr (server_idle\<lparr>trace := [BrowserClose 7, sweep]\<rparr>)"
    using cleanup_never_raises_idempotent_ordered [of env_all_fail "server_idle\<lparr>browserProcess := Some (Browser 7)\<rparr>" "[]"]
    by (auto simp add: server_idle_def)
  from a b c show ?thesis by blast
qed



text \<open>
  C9. The status route reports an active session exactly when the encoder handle is not null;
  it answers with that flag and the recorded error and changes nothing. The display and browser
  handles have no part in it: during a startup that has launched the browser (statements 5 to 9
  of the \<open>try\<close> block completed) but not yet spawned the encoder, both are held and the
  session is reported as not active.
\<close>

theorem status_active_iff_encoder_handle:
  "((\<exists>err. status_body s = Status True err) \<longleftrightarrow> streamProcess s \<noteq> None)
   \<and> status_body (s\<lparr>xvfbProcess := x, browserProcess := b\<rparr>) = status_body s
   \<and> api_status s = Inr (emit (Respond 200 (Status (streamProcess s \<noteq> None) (lastStreamError s))) s)
   \<and> (streamProcess s0 = None \<and> 5 \<le> n \<and> n \<le> 9
        \<and> run_steps (take n (start_steps e key html)) s0 = Inr s1
       \<longrightarrow> xvfbProcess s1 \<noteq> None \<and> browserProcess s1 \<noteq> None
           \<and> status_body s1 = Status False (lastStreamError s1))"
proof -
  have a: "(\<exists>err. status_body s = Status True err) \<longleftrightarrow> streamProcess s \<noteq> None"
    by (simp add: status_body_def)
  have b: "status_body (s\<lparr>xvfbProcess := x, browserProcess := b\<rparr>) = status_body s"
    by (simp add: status_body_def)
  have c: "api_status s = Inr (emit (Respond 200 (Status (streamProcess s \<noteq> None) (lastStreamError s))) s)"
    by (simp add: api_status_def respond_def status_body_def)
  have d: "streamProcess s0 = None \<and> 5 \<le> n \<and> n \<le> 9
        \<and> run_steps (take n (start_steps e key html)) s0 = Inr s1
       \<longrightarrow> xvfbProcess s1 \<noteq> None \<and> browserProcess s1 \<noteq> None
           \<and> status_body s1 = Status False (lastStreamError s1)"
    using startup_mid [of s0 n e key html s1] by (simp add: status_body_def)
  from a b c d show ?thesis by blast
qed

theorem status_active_iff_encoder_handle_witness:
  "run_steps (take 9 (start_steps env_ok ''abc123'' ''<html></html>'')) server_idle = Inr server_rendering
   \<and> xvfbProcess server_rendering \<noteq> None \<and> browserProcess server_rendering \<noteq> None
   \<and> status_body server_rendering = Status False None
   \<and> status_body server_active = Status True None"
proof -
  have i: "streamProcess server_idle = None"
    by (simp add: server_idle_def)
  have "xvfbProcess server_rendering \<noteq> None \<and> browserProcess server_rendering \<noteq> None
      \<and> status_body server_rendering = Status False (lastStreamError server_rendering)"
    using status_active_iff_encoder_handle [of server_active x b server_idle 9 env_ok
        "''abc123''" "''<html></html>''" server_rendering] i run9
    by simp
  moreover have "status_body server_active = Status True None"
    using status_active_iff_encoder_handle [of server_active x b server_idle 9 env_ok
        "''abc123''" "''<html></html>''" server_rendering]
    by (auto simp add: server_active_def status_body_def)
  ultimately show ?thesis
    using run9 by (simp add: server_rendering_def)
qed

text \<open>
  C10. For every exit code other than 0, the null code of a child killed by a signal included,
  an error is recorded once the exit handler has run; when none was recorded before, it is the
  generic message with the code, and null is printed as \<open>null\<close>. So when an active session
  without a recorded error is stopped, which kills the encoder, and the exit notification with
  the null code follows, the status reports an inactive session with the error
  \<open>FFmpeg exited unexpectedly with code null\<close>.
\<close>

theorem stop_leaves_exit_error:
  "(code \<noteq> Some 0 \<longrightarrow>
      (\<exists>s'. on_close e code s = Inr s' \<and> truthy (lastStreamError s')
          \<and> (lastStreamError s = None \<longrightarrow>
               lastStreamError s' = Some (''FFmpeg exited unexpectedly with code '' @ string_of_code code))))
   \<and> string_of_code None = ''null''
   \<and> (streamProcess s \<noteq> None \<and> lastStreamError s = None \<longrightarrow>
        (\<exists>s1 s2. api_stop e s = Inr s1 \<and> lastStreamError s1 = None
            \<and> on_close e' None s1 = Inr s2
            \<and> status_body s2 = Status False (Some ''FFmpeg exited unexpectedly with code null'')))"
proof -
  have a: "code \<noteq> Some 0 \<longrightarrow>
      (\<exists>s'. on_close e code s = Inr s' \<and> truthy (lastStreamError s')
          \<and> (lastStreamError s = None \<longrightarrow>
               lastStreamError s' = Some (''FFmpeg exited unexpectedly with code '' @ string_of_code code)))"
    by (simp add: on_close_eq idle_def truthy_def)
  have b: "string_of_code None = ''null''"
    by (simp add: string_of_code_def)
  have c: "streamProcess s \<noteq> None \<and> lastStreamError s = None \<longrightarrow>
        (\<exists>s1 s2. api_stop e s = Inr s1 \<and> lastStreamError s1 = None
            \<and> on_close e' None s1 = Inr s2
            \<and> status_body s2 = Status False (Some ''FFmpeg exited unexpectedly with code null''))"
    by (simp add: api_stop_eq on_close_eq idle_def truthy_def status_body_def b)
  from a b c show ?thesis by blast
qed

theorem stop_leaves_exit_error_witness:
  "api_stop env_ok server_active =
     Inr (server_idle\<lparr>trace := [Kill 103, BrowserClose 7, Kill 101, sweep,
                                  Respond 200 (Message ''Stream stopped'')]\<rparr>)
   \<and> (\<exists>s2. on_close env_ok None
          (server_idle\<lparr>trace := [Kill 103, BrowserClose 7, Kill 101, sweep,
                                  Respond 200 (Message ''Stream stopped'')]\<rparr>) = Inr s2
        \<and> status_body s2 = Status False (Some ''FFmpeg exited unexpectedly with code null''))"
proof -
  have stop: "api_stop env_ok server_active =
     Inr (server_idle\<lparr>trace := [Kill 103, BrowserClose 7, Kill 101, sweep,
                                  Respond 200 (Message ''Stream stopped'')]\<rparr>)"
    by (simp add: api_stop_eq idle_def teardown_def kill_effects_def server_active_def server_idle_def)
  have h: "streamProcess server_active \<noteq> None \<and> lastStreamError server_active = None"
    by (simp add: server_active_def)
  show ?thesis
    using stop_leaves_exit_error [of "None" env_ok server_active env_ok] h stop
    by auto
qed

end
